theory Spec2Isabelle
  imports Complex_Main
begin

section \<open>Numeric conventions\<close>

text \<open>
  The scripts compute with Python floats. They are modelled as real numbers: rounding is
  not represented, and \<open>math.sin\<close>, \<open>math.tan\<close>, \<open>math.atan\<close>, \<open>math.acos\<close> and
  \<open>math.hypot\<close> are the real functions of the same name, away from the poles of the
  tangent. At a pole (an odd multiple of a right angle) the real tangent has no value,
  and HOL's \<open>tan\<close> is \<open>0\<close> there. The floating-point code evaluates the tangent of the
  rounded argument, a number of the order of \<open>10\<^sup>1\<^sup>6\<close>, and what it computes from it
  depends on rounding; what the code returns at a pole is therefore a parameter of the
  model, about which nothing is assumed.
\<close>

definition radians :: "real \<Rightarrow> real" where
  "radians x = x * (pi / 180)"

definition degrees :: "real \<Rightarrow> real" where
  "degrees x = x * (180 / pi)"

datatype py_error =
    ValueError_geom_type
  | ValueError_zero_length
  | ValueError_out_of_range
  | IndexError
  | NotImplementedError

section \<open>Geometry\<close>

text \<open>
  Coordinates are pairs of reals. A geometry is one of the shapely kinds the scripts
  meet: a \<open>LineString\<close> with its coordinate sequence, a \<open>MultiLineString\<close> with
  the coordinate sequences of its parts, or a \<open>Polygon\<close> (its ring), which stands for
  every kind that is neither.
\<close>

type_synonym point = "real \<times> real"

datatype geometry =
    LineString "point list"
  | MultiLineString "point list list"
  | Polygon "point list"

text \<open>\<open>geom.coords\<close>: only a \<open>LineString\<close> has a coordinate sequence of its own.\<close>

fun coords :: "geometry \<Rightarrow> py_error + point list" where
  "coords (LineString cs) = Inr cs"
| "coords (MultiLineString parts) = Inl NotImplementedError"
| "coords (Polygon ring) = Inl NotImplementedError"

text \<open>The points of a segment and of a polyline, as subsets of the plane.\<close>

definition segment :: "point \<Rightarrow> point \<Rightarrow> point set" where
  "segment a b =
     {p. \<exists>t. 0 \<le> t \<and> t \<le> 1 \<and>
          p = (fst a + t * (fst b - fst a), snd a + t * (snd b - snd a))}"

fun path_points :: "point list \<Rightarrow> point set" where
  "path_points [] = {}"
| "path_points [a] = {a}"
| "path_points (a # b # cs) = segment a b \<union> path_points (b # cs)"

text \<open>Sequencing of a loop body that may raise: the first error ends the loop.\<close>

fun traverse :: "('a \<Rightarrow> py_error + 'b) \<Rightarrow> 'a list \<Rightarrow> py_error + 'b list" where
  "traverse f [] = Inr []"
| "traverse f (x # xs) =
     (case f x of
        Inl e \<Rightarrow> Inl e
      | Inr y \<Rightarrow> (case traverse f xs of Inl e \<Rightarrow> Inl e | Inr ys \<Rightarrow> Inr (y # ys)))"

section \<open>Script 01: extending faults\<close>

text \<open>\<open>get_endpoints(line)\<close>, lines 6 to 11.\<close>

definition get_endpoints :: "geometry \<Rightarrow> py_error + (point \<times> point)" where
  "get_endpoints line =
     (case coords line of
        Inl e \<Rightarrow> Inl e
      | Inr cs \<Rightarrow> (case cs of [] \<Rightarrow> Inl IndexError | _ \<Rightarrow> Inr (hd cs, last cs)))"

text \<open>
  \<open>count_connections(group)\<close>, lines 13 to 37. The group is the list of the geometries
  of its rows; the result is the new column \<open>endpoint_connections\<close>. \<open>list.count\<close> and the
  dictionary compare points with \<open>==\<close>, which on shapely points is equality of the
  coordinates.
\<close>

definition count_connections :: "geometry list \<Rightarrow> py_error + (nat \<times> nat) list" where
  "count_connections group_rows =
     (case traverse get_endpoints group_rows of
        Inl e \<Rightarrow> Inl e
      | Inr endpoints \<Rightarrow>
          let all_points = concat (map (\<lambda>(p1, p2). [p1, p2]) endpoints);
              counts = (\<lambda>pt. count_list all_points pt)
          in Inr (map (\<lambda>(p1, p2). (counts p1, counts p2)) endpoints))"

text \<open>
  \<open>extend_fault(fault_line, connections, model_area, factor)\<close>, lines 39 to 75. The
  model area is the set of points of its polygon. The function returns either the fault
  line it was given, or the shapely intersection of the extended line with the model
  area; the latter is kept as the coordinates of the extended line and the area.
\<close>

datatype ext_result =
    Unmodified
  | Intersection "point list" "point set"

definition default_factor :: real where
  "default_factor = 1000"

definition extend_fault ::
  "geometry \<Rightarrow> nat \<times> nat \<Rightarrow> point set \<Rightarrow> real \<Rightarrow> py_error + ext_result" where
  "extend_fault fault_line connections model_area factor =
     (case coords fault_line of
        Inl e \<Rightarrow> Inl e
      | Inr cs \<Rightarrow>
         (case cs of
            [] \<Rightarrow> Inl IndexError
          | _ \<Rightarrow>
             let start_point = hd cs;
                 end_point = last cs;
                 direction_x = fst end_point - fst start_point;
                 direction_y = snd end_point - snd start_point;
                 extended_start =
                   (if fst connections = 1
                    then [(fst start_point - direction_x * factor,
                           snd start_point - direction_y * factor), start_point]
                    else []);
                 extended_end =
                   (if snd connections = 1
                    then [end_point,
                          (fst end_point + direction_x * factor,
                           snd end_point + direction_y * factor)]
                    else []);
                 new_geometries = extended_start @ extended_end
             in if new_geometries \<noteq> []
                then Inr (Intersection ([start_point] @ new_geometries @ [end_point]) model_area)
                else Inr Unmodified))"

text \<open>
  The points of what \<open>extend_fault\<close> returned, for a fault line of coordinates \<open>cs\<close>.
  The intersection of a line with a polygon is the set of their common points, except
  for a line of zero length (all its vertices coincide), whose intersection shapely
  returns empty.
\<close>

fun result_points :: "point list \<Rightarrow> ext_result \<Rightarrow> point set" where
  "result_points cs Unmodified = path_points cs"
| "result_points cs (Intersection ext area) =
     (if set ext \<subseteq> {hd ext} then {} else path_points ext \<inter> area)"

text \<open>The far ends of the two extensions, lines 55 and 64.\<close>

definition far_start :: "point list \<Rightarrow> real \<Rightarrow> point" where
  "far_start cs factor =
     (fst (hd cs) - (fst (last cs) - fst (hd cs)) * factor,
      snd (hd cs) - (snd (last cs) - snd (hd cs)) * factor)"

definition far_end :: "point list \<Rightarrow> real \<Rightarrow> point" where
  "far_end cs factor =
     (fst (last cs) + (fst (last cs) - fst (hd cs)) * factor,
      snd (last cs) + (snd (last cs) - snd (hd cs)) * factor)"

section \<open>Script 02: intersections and apparent dip\<close>

text \<open>
  The elevation raster. \<open>dem.index(x, y)\<close> is rasterio's map from coordinates to a
  (row, column) pair, which checks no bounds; \<open>dem.read(1)\<close> is the first band, an array
  of \<open>height\<close> rows and \<open>width\<close> columns.
\<close>

record dem =
  dem_index :: "real \<Rightarrow> real \<Rightarrow> int \<times> int"
  height :: nat
  width :: nat
  band1 :: "nat \<Rightarrow> nat \<Rightarrow> real"

text \<open>
  An index into an axis of length \<open>n\<close> of a numpy array: from \<open>0\<close> to \<open>n - 1\<close> it
  counts from the start, from \<open>-n\<close> to \<open>-1\<close> from the end, and anything else raises.
\<close>

definition axis_index :: "int \<Rightarrow> nat \<Rightarrow> py_error + nat" where
  "axis_index i n =
     (if 0 \<le> i \<and> i < int n then Inr (nat i)
      else if - int n \<le> i \<and> i < 0 then Inr (nat (i + int n))
      else Inl IndexError)"

text \<open>\<open>get_elevation(x, y, dem)\<close>, lines 25 to 39.\<close>

definition get_elevation :: "real \<Rightarrow> real \<Rightarrow> dem \<Rightarrow> py_error + real" where
  "get_elevation x y d =
     (case dem_index d x y of
        (row, col) \<Rightarrow>
          (case axis_index row (height d) of
             Inl e \<Rightarrow> Inl e
           | Inr r \<Rightarrow>
              (case axis_index col (width d) of
                 Inl e \<Rightarrow> Inl e
               | Inr c \<Rightarrow> Inr (band1 d r c))))"

text \<open>A point is covered by the raster when its cell is one of the array's.\<close>

definition covered :: "dem \<Rightarrow> real \<Rightarrow> real \<Rightarrow> bool" where
  "covered d x y =
     (case dem_index d x y of
        (row, col) \<Rightarrow> 0 \<le> row \<and> row < int (height d) \<and> 0 \<le> col \<and> col < int (width d))"

text \<open>\<open>calculate_distance(start_point, intersection_point)\<close>, lines 41 to 52.\<close>

definition calculate_distance :: "point \<Rightarrow> point \<Rightarrow> real" where
  "calculate_distance start_point intersection_point =
     sqrt ((fst intersection_point - fst start_point)\<^sup>2
           + (snd intersection_point - snd start_point)\<^sup>2)"

text \<open>\<open>calculate_angle(line1, line2)\<close>, lines 54 to 90.\<close>

fun is_line :: "geometry \<Rightarrow> bool" where
  "is_line (LineString cs) = True"
| "is_line (MultiLineString parts) = True"
| "is_line (Polygon ring) = False"

text \<open>Lines 68 to 71: a multi-part line is replaced by its first part.\<close>

fun first_part :: "geometry \<Rightarrow> py_error + point list" where
  "first_part (LineString cs) = Inr cs"
| "first_part (MultiLineString []) = Inl IndexError"
| "first_part (MultiLineString (part # parts)) = Inr part"
| "first_part (Polygon ring) = Inl ValueError_geom_type"

definition hypot :: "real \<Rightarrow> real \<Rightarrow> real" where
  "hypot x y = sqrt (x\<^sup>2 + y\<^sup>2)"

text \<open>Lines 73 to 90, on the two coordinate sequences.\<close>

definition chord_angle :: "point list \<Rightarrow> point list \<Rightarrow> py_error + real" where
  "chord_angle cs1 cs2 =
     (if cs1 = [] \<or> cs2 = [] then Inl IndexError
      else
        let v1 = (fst (last cs1) - fst (hd cs1), snd (last cs1) - snd (hd cs1));
            v2 = (fst (last cs2) - fst (hd cs2), snd (last cs2) - snd (hd cs2));
            mag_v1 = hypot (fst v1) (snd v1);
            mag_v2 = hypot (fst v2) (snd v2)
        in if mag_v1 = 0 \<or> mag_v2 = 0 then Inl ValueError_zero_length
           else
             let dot_product = fst v1 * fst v2 + snd v1 * snd v2;
                 cos_angle = max (- 1) (min 1 (dot_product / (mag_v1 * mag_v2)));
                 angle_rad = arccos cos_angle
             in Inr (degrees angle_rad))"

definition calculate_angle :: "geometry \<Rightarrow> geometry \<Rightarrow> py_error + real" where
  "calculate_angle line1 line2 =
     (if \<not> is_line line1 \<or> \<not> is_line line2 then Inl ValueError_geom_type
      else
        (case first_part line1 of
           Inl e \<Rightarrow> Inl e
         | Inr cs1 \<Rightarrow>
            (case first_part line2 of
               Inl e \<Rightarrow> Inl e
             | Inr cs2 \<Rightarrow> chord_angle cs1 cs2)))"

text \<open>
  For comparison: the angle between the chords that run from the first vertex of the
  first part to the last vertex of the last part, which is what the chord of a whole
  multi-part line would be.
\<close>

fun all_vertices :: "geometry \<Rightarrow> point list" where
  "all_vertices (LineString cs) = cs"
| "all_vertices (MultiLineString parts) = concat parts"
| "all_vertices (Polygon ring) = ring"

definition overall_chord_angle :: "geometry \<Rightarrow> geometry \<Rightarrow> py_error + real" where
  "overall_chord_angle line1 line2 =
     (if \<not> is_line line1 \<or> \<not> is_line line2 then Inl ValueError_geom_type
      else chord_angle (all_vertices line1) (all_vertices line2))"

text \<open>
  Also for comparison: the angle in degrees, from 0 to 180, between the vector from \<open>a\<close>
  to \<open>b\<close> and the vector from \<open>c\<close> to \<open>d\<close>, by the arc cosine of their normalised dot
  product, clamped to the interval from \<open>-1\<close> to \<open>1\<close>.
\<close>

definition vector_angle :: "point \<Rightarrow> point \<Rightarrow> point \<Rightarrow> point \<Rightarrow> real" where
  "vector_angle a b c d =
     arccos (max (- 1) (min 1
       (((fst b - fst a) * (fst d - fst c) + (snd b - snd a) * (snd d - snd c))
        / (sqrt ((fst b - fst a)\<^sup>2 + (snd b - snd a)\<^sup>2)
           * sqrt ((fst d - fst c)\<^sup>2 + (snd d - snd c)\<^sup>2)))))
     * 180 / pi"

subsection \<open>Apparent dip\<close>

text \<open>
  \<open>calculate_apparent_dip(angle_deg, dip_deg)\<close>, lines 92 to 108. A dip of 90 degrees
  passes the range check and puts the tangent at its pole: the code returns a number
  there (the product of a sine that may be a rounding residue and a tangent of the
  order of \<open>10\<^sup>1\<^sup>6\<close>), which the model takes from its parameter \<open>dip_at_pole\<close>, given
  the angle.
\<close>

definition calculate_apparent_dip :: "(real \<Rightarrow> real) \<Rightarrow> real \<Rightarrow> real \<Rightarrow> py_error + real" where
  "calculate_apparent_dip dip_at_pole angle_deg dip_deg =
     (if \<not> (0 \<le> angle_deg \<and> angle_deg \<le> 180) \<or> \<not> (0 \<le> dip_deg \<and> dip_deg \<le> 90)
      then Inl ValueError_out_of_range
      else let angle_rad = radians angle_deg;
               dip_rad = radians dip_deg
           in if cos dip_rad = 0 then Inr (dip_at_pole angle_deg)
              else let apparent_dip_rad = arctan (sin angle_rad * tan dip_rad)
                   in Inr (degrees apparent_dip_rad))"


subsection \<open>Processing all pairs\<close>

text \<open>
  The rows of the two tables, with the columns the script reads, and the record it
  appends for each crossing point (the keys of the dictionary of lines 139 to 151).
\<close>

record section_row =
  section_geometry :: geometry
  section_name :: string

record fault_row =
  fault_geometry :: geometry
  Dip :: real
  azimuth :: real
  Side_Dip :: string
  Fault :: string
  dip_direct :: string

record intersection =
  geometry :: point
  elevation :: real
  distance :: real
  angle :: real
  Azimuth :: real
  apparent_dip :: real
  true_dip :: real
  dip_side :: string
  section_id :: string
  fault_id :: string
  dip_direction :: string

text \<open>
  What shapely's \<open>intersection\<close> of two geometries is, as far as lines 128 and 129 tell
  results apart: one point, a multi-point, or anything else.
\<close>

datatype crossing =
    CrossPoint point
  | CrossMultiPoint "point list"
  | CrossOther

fun geometries :: "crossing \<Rightarrow> point list" where
  "geometries (CrossPoint p) = [p]"
| "geometries (CrossMultiPoint ps) = ps"
| "geometries CrossOther = []"

text \<open>The body of the innermost loop, lines 132 to 151, in the order of its calls.\<close>

definition process_point ::
  "(real \<Rightarrow> real) \<Rightarrow> dem \<Rightarrow> section_row \<Rightarrow> fault_row \<Rightarrow> point
     \<Rightarrow> py_error + intersection" where
  "process_point dip_at_pole d section fault pt =
     (case get_elevation (fst pt) (snd pt) d of
        Inl e \<Rightarrow> Inl e
      | Inr elev \<Rightarrow>
         (case coords (section_geometry section) of
            Inl e \<Rightarrow> Inl e
          | Inr cs \<Rightarrow>
             (case cs of
                [] \<Rightarrow> Inl IndexError
              | start_point # _ \<Rightarrow>
                 (case calculate_angle (section_geometry section) (fault_geometry fault) of
                    Inl e \<Rightarrow> Inl e
                  | Inr ang \<Rightarrow>
                     (case calculate_apparent_dip dip_at_pole ang (Dip fault) of
                        Inl e \<Rightarrow> Inl e
                      | Inr app \<Rightarrow>
                         Inr \<lparr>geometry = pt,
                              elevation = elev,
                              distance = calculate_distance start_point pt,
                              angle = ang,
                              Azimuth = azimuth fault,
                              apparent_dip = app,
                              true_dip = Dip fault,
                              dip_side = Side_Dip fault,
                              section_id = section_name section,
                              fault_id = Fault fault,
                              dip_direction = dip_direct fault\<rparr>)))))"

text \<open>
  \<open>process_intersections(sections, faults, dem)\<close>, lines 110 to 153. The shapely
  intersection is the parameter \<open>isect\<close>, and \<open>dip_at_pole\<close> is passed on to
  \<open>calculate_apparent_dip\<close>. No call of the loops is guarded, so the first error leaves
  the function.
\<close>

definition process_pair ::
  "(real \<Rightarrow> real) \<Rightarrow> (geometry \<Rightarrow> geometry \<Rightarrow> crossing) \<Rightarrow> dem \<Rightarrow> section_row
     \<Rightarrow> fault_row \<Rightarrow> py_error + intersection list" where
  "process_pair dip_at_pole isect d section fault =
     traverse (process_point dip_at_pole d section fault)
       (geometries (isect (section_geometry section) (fault_geometry fault)))"

definition process_section ::
  "(real \<Rightarrow> real) \<Rightarrow> (geometry \<Rightarrow> geometry \<Rightarrow> crossing) \<Rightarrow> fault_row list \<Rightarrow> dem
     \<Rightarrow> section_row \<Rightarrow> py_error + intersection list" where
  "process_section dip_at_pole isect faults d section =
     (case traverse (process_pair dip_at_pole isect d section) faults of
        Inl e \<Rightarrow> Inl e
      | Inr rss \<Rightarrow> Inr (concat rss))"

definition process_intersections ::
  "(real \<Rightarrow> real) \<Rightarrow> (geometry \<Rightarrow> geometry \<Rightarrow> crossing) \<Rightarrow> section_row list
     \<Rightarrow> fault_row list \<Rightarrow> dem \<Rightarrow> py_error + intersection list" where
  "process_intersections dip_at_pole isect sections faults d =
     (case traverse (process_section dip_at_pole isect faults d) sections of
        Inl e \<Rightarrow> Inl e
      | Inr rss \<Rightarrow> Inr (concat rss))"

text \<open>
  \<open>save_results\<close>, lines 155 to 166: \<open>drop_duplicates\<close> on the two identifier columns
  keeps, of the rows that agree on both, the first; the function below is the table that
  is written. \<open>seen\<close> holds the identifier pairs met so far.
\<close>

definition pair_id :: "intersection \<Rightarrow> string \<times> string" where
  "pair_id r = (section_id r, fault_id r)"

fun drop_duplicates :: "(string \<times> string) list \<Rightarrow> intersection list \<Rightarrow> intersection list" where
  "drop_duplicates seen [] = []"
| "drop_duplicates seen (r # rs) =
     (if pair_id r \<in> set seen then drop_duplicates seen rs
      else r # drop_duplicates (pair_id r # seen) rs)"

definition save_results :: "intersection list \<Rightarrow> intersection list" where
  "save_results intersections_info = drop_duplicates [] intersections_info"

section \<open>Script 03: projecting faults into sections\<close>

text \<open>
  A feature of a section file: its geometry in the section's (distance, elevation) plane
  and its \<open>Uni\<close> tag. The rows of the dip file are the records script 02 saved; the
  shapefile cuts column names at ten characters, so the script reads \<open>apparent_dip\<close> as
  \<open>apparent_d\<close>. Identifiers are strings, on which \<open>str\<close> changes nothing.
\<close>

record feature =
  feature_geometry :: geometry
  Uni :: string

text \<open>\<open>math.isclose(a, b, abs_tol=...)\<close> with its default relative tolerance.\<close>

definition isclose :: "real \<Rightarrow> real \<Rightarrow> real \<Rightarrow> bool" where
  "isclose a b abs_tol =
     (\<bar>a - b\<bar> \<le> max ((1 / 10 ^ 9) * max \<bar>a\<bar> \<bar>b\<bar>) abs_tol)"

text \<open>
  \<open>math.tan\<close>: the real tangent, and at a pole the number \<open>tan_at_pole\<close> gives for the
  argument, which stands for the tangent the code computes there.
\<close>

definition math_tan :: "(real \<Rightarrow> real) \<Rightarrow> real \<Rightarrow> real" where
  "math_tan tan_at_pole x = (if cos x = 0 then tan_at_pole x else tan x)"

text \<open>The body of the loop over the faults of a section, lines 38 to 64.\<close>

definition project_fault ::
  "(real \<Rightarrow> real) \<Rightarrow> real \<Rightarrow> string set \<Rightarrow> intersection \<Rightarrow> feature option" where
  "project_fault tan_at_pole max_depth existing_faults fault =
     (if fault_id fault \<in> existing_faults then None
      else
        let x_start = distance fault;
            y_start = elevation fault;
            apparent_dip_rad = radians (apparent_dip fault)
        in if apparent_dip_rad = 0
              \<or> isclose (math_tan tan_at_pole apparent_dip_rad) 0 (1 / 10 ^ 6) then None
           else
             let direction = (if dip_side fault = ''L'' then - 1 else 1);
                 len = max_depth / math_tan tan_at_pole apparent_dip_rad;
                 x_end = x_start + direction * \<bar>len\<bar>;
                 y_end = max_depth
             in Some \<lparr>feature_geometry = LineString [(x_start, y_start), (x_end, y_end)],
                      Uni = fault_id fault\<rparr>)"

text \<open>Lines 31 to 71 for one section file: the features that are written.\<close>

definition add_faults_to_section ::
  "(real \<Rightarrow> real) \<Rightarrow> feature list \<Rightarrow> intersection list \<Rightarrow> real \<Rightarrow> feature list" where
  "add_faults_to_section tan_at_pole section_gdf section_faults max_depth =
     (let existing_faults = set (map Uni section_gdf);
          new_faults =
            List.map_filter (project_fault tan_at_pole max_depth existing_faults) section_faults
      in if new_faults \<noteq> [] then section_gdf @ new_faults else section_gdf)"

text \<open>
  \<open>add_faults_to_sections\<close>, lines 8 to 78. The two folders map a section identifier to
  the features of its file; a section with no file is skipped.
\<close>

fun add_faults_loop ::
  "(real \<Rightarrow> real) \<Rightarrow> (string \<rightharpoonup> feature list) \<Rightarrow> intersection list \<Rightarrow> real \<Rightarrow> string list
     \<Rightarrow> (string \<rightharpoonup> feature list) \<Rightarrow> (string \<rightharpoonup> feature list)" where
  "add_faults_loop tan_at_pole sections_folder dip_gdf max_depth [] output_folder = output_folder"
| "add_faults_loop tan_at_pole sections_folder dip_gdf max_depth (sid # sids) output_folder =
     (case sections_folder sid of
        None \<Rightarrow> add_faults_loop tan_at_pole sections_folder dip_gdf max_depth sids output_folder
      | Some section_gdf \<Rightarrow>
          add_faults_loop tan_at_pole sections_folder dip_gdf max_depth sids
            (output_folder(sid \<mapsto>
               add_faults_to_section tan_at_pole section_gdf
                 (filter (\<lambda>r. section_id r = sid) dip_gdf) max_depth)))"

text \<open>\<open>Series.unique()\<close>: the distinct values, in the order of their first occurrence.\<close>

fun unique :: "'a list \<Rightarrow> 'a list" where
  "unique [] = []"
| "unique (x # xs) = x # filter (\<lambda>y. y \<noteq> x) (unique xs)"

definition add_faults_to_sections ::
  "(real \<Rightarrow> real) \<Rightarrow> (string \<rightharpoonup> feature list) \<Rightarrow> (string \<rightharpoonup> feature list)
     \<Rightarrow> intersection list \<Rightarrow> real \<Rightarrow> (string \<rightharpoonup> feature list)" where
  "add_faults_to_sections tan_at_pole sections_folder output_folder dip_gdf max_depth =
     add_faults_loop tan_at_pole sections_folder dip_gdf max_depth
       (unique (map section_id dip_gdf)) output_folder"

section \<open>Example inputs\<close>

text \<open>
  A raster of two rows and two columns with cells of size one, whose upper left corner
  is at \<open>(0, 1)\<close>: it covers \<open>0 \<le> x < 2\<close> and \<open>-1 < y \<le> 1\<close>. The index is the one of a
  north-up affine transform.
\<close>

definition ex_dem :: dem where
  "ex_dem = \<lparr>dem_index = (\<lambda>x y. (\<lfloor>1 - y\<rfloor>, \<lfloor>x\<rfloor>)),
             height = 2, width = 2,
             band1 = (\<lambda>r c. 2240 + 10 * real r + real c)\<rparr>"

text \<open>A section along the x axis and two faults that cross it at \<open>(1, 0)\<close>.\<close>

definition ex_section :: section_row where
  "ex_section = \<lparr>section_geometry = LineString [(0, 0), (1, 0)], section_name = ''S1''\<rparr>"

definition ex_fault :: fault_row where
  "ex_fault = \<lparr>fault_geometry = LineString [(1, - (1 / 2)), (1, 1 / 2)],
               Dip = 45, azimuth = 0, Side_Dip = ''R'', Fault = ''F2'', dip_direct = ''E''\<rparr>"


definition ex_isect :: "geometry \<Rightarrow> geometry \<Rightarrow> crossing" where
  "ex_isect line1 line2 = CrossPoint (1, 0)"

definition ex_record :: intersection where
  "ex_record = \<lparr>geometry = (1, 0), elevation = 2251, distance = 1, angle = 90,
                Azimuth = 0, apparent_dip = 45, true_dip = 45, dip_side = ''R'',
                section_id = ''S1'', fault_id = ''F2'', dip_direction = ''E''\<rparr>"

text \<open>
  Example values for the two parameters at the poles. The tangent that \<open>math.tan\<close>
  returns at a right angle is \<open>1.633123935319537e16\<close> in absolute value. The apparent dip
  of a vertical fault is taken as the arc tangent, in degrees, of that tangent times the
  sine of the angle, where the sine at 180 degrees is the \<open>1.2246467991473532e-16\<close> that
  \<open>math.sin\<close> returns there.
\<close>

definition ex_tan_at_pole :: "real \<Rightarrow> real" where
  "ex_tan_at_pole x = (if 0 < sin x then 16331239353195370 else - 16331239353195370)"

definition ex_dip_at_pole :: "real \<Rightarrow> real" where
  "ex_dip_at_pole angle_deg =
     degrees (arctan ((if angle_deg = 180 then 12246467991473532 / 10 ^ 32
                       else sin (radians angle_deg)) * 16331239353195370))"

text \<open>The unit square as a model area.\<close>

definition ex_area :: "point set" where
  "ex_area = {p. 0 \<le> fst p \<and> fst p \<le> 1 \<and> 0 \<le> snd p \<and> snd p \<le> 1}"

section \<open>Properties\<close>

subsection \<open>Auxiliary facts: angles and numbers\<close>

lemma radians_90: "radians 90 = pi / 2"
  by (simp add: radians_def)

lemma radians_45: "radians 45 = pi / 4"
  by (simp add: radians_def)


lemma degrees_quarter_pi: "degrees (pi / 4) = 45"
  by (simp add: degrees_def)

lemma cos_radians_pos:
  assumes "0 \<le> \<delta>" "\<delta> < 90"
  shows "0 < cos (radians \<delta>)"
proof -
  have "radians \<delta> < pi / 2"
    using assms(2) by (simp add: radians_def)
  moreover have "- (pi / 2) < radians \<delta>"
  proof -
    have "0 \<le> radians \<delta>" using assms(1) by (simp add: radians_def)
    moreover have "- (pi / 2) < 0" by simp
    ultimately show ?thesis by linarith
  qed
  ultimately show ?thesis by (rule cos_gt_zero_pi [rotated])
qed

lemma cos_radians_45: "cos (radians 45) \<noteq> 0"
  using cos_radians_pos [of 45] by simp




lemma apparent_dip_90_45: "calculate_apparent_dip p 90 45 = Inr 45"
  using cos_radians_45
  by (simp add: calculate_apparent_dip_def Let_def)
     (simp add: radians_90 radians_45 tan_45 arctan_one degrees_quarter_pi)


lemma arctan_series_bounds:
  assumes "0 < x" "x \<le> 1"
  shows "(\<Sum>i<2 * n. (- 1) ^ i * (1 / real (i * 2 + 1) * x ^ (i * 2 + 1))) \<le> arctan x"
    and "arctan x \<le> (\<Sum>i<2 * n + 1. (- 1) ^ i * (1 / real (i * 2 + 1) * x ^ (i * 2 + 1)))"
proof -
  have ax: "\<bar>x\<bar> \<le> 1" using assms by simp
  have pos: "0 < 1 / real (0 * 2 + 1) * x ^ (0 * 2 + 1)" using assms by simp
  from summable_Leibniz(2) [OF zeroseq_arctan_series [OF ax] monoseq_arctan_series [OF ax]] pos
  have "\<forall>n. (\<Sum>i. (- 1) ^ i * (1 / real (i * 2 + 1) * x ^ (i * 2 + 1)))
      \<in> {\<Sum>i<2 * n. (- 1) ^ i * (1 / real (i * 2 + 1) * x ^ (i * 2 + 1)) ..
         \<Sum>i<2 * n + 1. (- 1) ^ i * (1 / real (i * 2 + 1) * x ^ (i * 2 + 1))}"
    by blast
  then show "(\<Sum>i<2 * n. (- 1) ^ i * (1 / real (i * 2 + 1) * x ^ (i * 2 + 1))) \<le> arctan x"
    and "arctan x \<le> (\<Sum>i<2 * n + 1. (- 1) ^ i * (1 / real (i * 2 + 1) * x ^ (i * 2 + 1)))"
    using arctan_series [OF ax] by auto
qed









subsection \<open>Auxiliary facts: the loops of script 02\<close>


lemma traverse_Inr_member:
  "traverse f xs = Inr ys \<Longrightarrow> x \<in> set xs \<Longrightarrow> \<exists>y \<in> set ys. f x = Inr y"
  by (induction xs arbitrary: ys) (auto split: sum.splits)

lemma process_point_ids:
  "process_point p d sec fault pt = Inr r \<Longrightarrow>
     section_id r = section_name sec \<and> fault_id r = Fault fault"
  by (auto simp add: process_point_def split: sum.splits list.splits)

lemma ex_pair_ok: "process_pair p ex_isect ex_dem ex_section ex_fault = Inr [ex_record]"
  by (simp add: process_pair_def ex_isect_def process_point_def get_elevation_def ex_dem_def
      axis_index_def ex_section_def ex_fault_def calculate_angle_def chord_angle_def hypot_def
      degrees_def apparent_dip_90_45 calculate_distance_def ex_record_def)


lemma ex_pair_second:
  "process_pair p ex_isect ex_dem ex_section
     (ex_fault\<lparr>fault_geometry := LineString [(1, - 1), (1, 0)]\<rparr>)
   = Inr [ex_record]"
  by (simp add: process_pair_def ex_isect_def process_point_def get_elevation_def ex_dem_def
      axis_index_def ex_section_def ex_fault_def calculate_angle_def chord_angle_def hypot_def
      degrees_def apparent_dip_90_45 calculate_distance_def ex_record_def)

lemma ex_two_segments:
  "process_intersections p ex_isect [ex_section]
     [ex_fault, ex_fault\<lparr>fault_geometry := LineString [(1, - 1), (1, 0)]\<rparr>] ex_dem
   = Inr [ex_record, ex_record]"
  by (simp add: process_intersections_def process_section_def ex_pair_ok ex_pair_second)

lemma process_intersections_member:
  assumes "process_intersections p isect sections faults d = Inr rs"
    and "sec \<in> set sections" and "fault \<in> set faults"
    and "pt \<in> set (geometries (isect (section_geometry sec) (fault_geometry fault)))"
  shows "\<exists>r \<in> set rs. process_point p d sec fault pt = Inr r"
proof -
  from assms(1) obtain rss where
    t1: "traverse (process_section p isect faults d) sections = Inr rss"
    and rs: "rs = concat rss"
    by (auto simp add: process_intersections_def split: sum.splits)
  from traverse_Inr_member [OF t1 assms(2)] obtain rs1 where
    rs1: "rs1 \<in> set rss" and p1: "process_section p isect faults d sec = Inr rs1"
    by blast
  from p1 obtain rss2 where
    t2: "traverse (process_pair p isect d sec) faults = Inr rss2" and rs1c: "rs1 = concat rss2"
    by (auto simp add: process_section_def split: sum.splits)
  from traverse_Inr_member [OF t2 assms(3)] obtain rs2 where
    rs2: "rs2 \<in> set rss2" and p2: "process_pair p isect d sec fault = Inr rs2"
    by blast
  from p2 have t3: "traverse (process_point p d sec fault)
      (geometries (isect (section_geometry sec) (fault_geometry fault))) = Inr rs2"
    by (simp add: process_pair_def)
  from traverse_Inr_member [OF t3 assms(4)] obtain r where
    r: "r \<in> set rs2" and pr: "process_point p d sec fault pt = Inr r"
    by blast
  from r rs2 have "r \<in> set rs1" unfolding rs1c by auto
  with rs1 have "r \<in> set rs" unfolding rs by auto
  with pr show ?thesis by blast
qed

lemma drop_duplicates_filter:
  "filter (\<lambda>q. pair_id q = k) (drop_duplicates seen rs) =
     (if k \<in> set seen then [] else take 1 (filter (\<lambda>q. pair_id q = k) rs))"
  by (induction rs arbitrary: seen) auto

lemma pair_id_eq: "(pair_id q = (s, f)) = (section_id q = s \<and> fault_id q = f)"
  by (auto simp add: pair_id_def)

subsection \<open>Apparent dip (C1)\<close>



subsection \<open>One record for each pair (C2)\<close>

text \<open>
  Claim C2. When \<open>process_intersections\<close> returns its records, every pair of a section
  and a fault whose intersection has at least one crossing point has exactly one record
  in the table that \<open>save_results\<close> writes, under the section's name and the fault's
  identifier: the first of the records with these two identifiers.
\<close>

theorem saved_output_one_record_per_pair:
  assumes "process_intersections p isect sections faults d = Inr rs"
    and "sec \<in> set sections" and "fault \<in> set faults"
    and "1 \<le> length (geometries (isect (section_geometry sec) (fault_geometry fault)))"
  shows "length (filter (\<lambda>q. section_id q = section_name sec \<and> fault_id q = Fault fault)
           (save_results rs)) = 1
    \<and> filter (\<lambda>q. section_id q = section_name sec \<and> fault_id q = Fault fault)
           (save_results rs)
        = [hd (filter (\<lambda>q. section_id q = section_name sec \<and> fault_id q = Fault fault) rs)]"
proof -
  let ?P = "\<lambda>q. section_id q = section_name sec \<and> fault_id q = Fault fault"
  from assms(4) obtain pt where
    "pt \<in> set (geometries (isect (section_geometry sec) (fault_geometry fault)))"
    by (cases "geometries (isect (section_geometry sec) (fault_geometry fault))") auto
  from process_intersections_member [OF assms(1-3) this] obtain r where
    "r \<in> set rs" and "process_point p d sec fault pt = Inr r"
    by blast
  then have "r \<in> set rs \<and> ?P r"
    using process_point_ids [of p d sec fault pt r] by simp
  then have ne: "filter ?P rs \<noteq> []"
    unfolding filter_empty_conv by blast
  have "filter ?P (save_results rs) = take 1 (filter ?P rs)"
    using drop_duplicates_filter [of "(section_name sec, Fault fault)" "[]" rs]
    by (simp add: save_results_def pair_id_eq)
  then show ?thesis
    using ne by (cases "filter ?P rs") simp_all
qed

text \<open>
  Two rows of the same fault cross the example section: the two records they give have
  the same identifiers, and one is saved.
\<close>

theorem saved_output_one_record_per_pair_witness:
  "length (filter (\<lambda>q. section_id q = ''S1'' \<and> fault_id q = ''F2'')
     (save_results [ex_record, ex_record])) = 1"
  using saved_output_one_record_per_pair
    [OF ex_two_segments [of ex_dip_at_pole], of ex_section ex_fault]
  by (simp add: ex_section_def ex_fault_def ex_isect_def)

subsection \<open>Elevation outside the raster (C6)\<close>

text \<open>
  Claim C6 says that a point outside the raster's coverage makes the lookup fail. The
  point \<open>(1, 3/2)\<close> lies north of the example raster: its row index is \<open>-1\<close>, which the
  array reads as its last row, so the lookup returns the elevation of the cell at the
  southern edge.
\<close>

theorem get_elevation_north_of_raster:
  "dem_index ex_dem 1 (3 / 2) = (- 1, 1)
   \<and> \<not> covered ex_dem 1 (3 / 2)
   \<and> get_elevation 1 (3 / 2) ex_dem = Inr 2251
   \<and> get_elevation 1 0 ex_dem = Inr 2251"
  by (simp add: covered_def get_elevation_def ex_dem_def axis_index_def)

lemma get_elevation_past_end:
  assumes "dem_index d x y = (row, col)"
    and "int (height d) \<le> row \<or> int (width d) \<le> col"
  shows "get_elevation x y d = Inl IndexError"
  using assms by (auto simp add: get_elevation_def axis_index_def split: sum.splits)

lemma get_elevation_negative_row:
  assumes "dem_index d x y = (row, col)" and "- int (height d) \<le> row" and "row < 0"
    and "0 \<le> col" and "col < int (width d)"
  shows "get_elevation x y d = Inr (band1 d (nat (row + int (height d))) (nat col))"
  using assms by (auto simp add: get_elevation_def axis_index_def split: sum.splits)

subsection \<open>Errors in the batch (C7)\<close>




subsection \<open>Auxiliary facts: the projector\<close>

lemma isclose_zero: "0 \<le> tol \<Longrightarrow> isclose t 0 tol = (\<bar>t\<bar> \<le> tol)"
  by (auto simp add: isclose_def max_def)

lemma math_tan_regular: "cos x \<noteq> 0 \<Longrightarrow> math_tan tp x = tan x"
  by (simp add: math_tan_def)

lemma math_tan_45: "math_tan tp (radians 45) = 1"
  using cos_radians_45 by (simp add: math_tan_def radians_45 tan_45)

lemma math_tan_90: "math_tan ex_tan_at_pole (radians 90) = 16331239353195370"
  by (simp add: math_tan_def radians_90 ex_tan_at_pole_def)

lemma tan_small:
  "0 \<le> math_tan tp (radians (1 / 10 ^ 5)) \<and> math_tan tp (radians (1 / 10 ^ 5)) \<le> 1 / 10 ^ 6"
proof -
  let ?x = "radians (1 / 10 ^ 5)"
  let ?y = "1 / 10 ^ 6 :: real"
  have x0: "0 < ?x" by (simp add: radians_def)
  have xs: "?x < 3 / 10 ^ 7"
    using pi_less_4 by (simp add: radians_def)
  have "(\<Sum>i<2 * 1. (- 1) ^ i * (1 / real (i * 2 + 1) * ?y ^ (i * 2 + 1))) \<le> arctan ?y"
    by (rule arctan_series_bounds(1)) simp_all
  then have ya: "3 / 10 ^ 7 \<le> arctan ?y"
    by (simp add: lessThan_nat_numeral lessThan_Suc power_divide)
  have le: "?x \<le> arctan ?y" using xs ya by linarith
  have "tan ?x \<le> tan (arctan ?y)"
    by (rule tan_mono_le) (use x0 le arctan_ubound [of ?y] in auto)
  then have up: "tan ?x \<le> ?y" by (simp only: tan_arctan)
  have xh: "?x < pi / 2" using le arctan_ubound [of ?y] by linarith
  then have pos: "0 < tan ?x" using x0 by (simp only: tan_gt_zero)
  have "0 < cos ?x" using x0 xh by (simp only: cos_gt_zero)
  then have "math_tan tp ?x = tan ?x" by (simp add: math_tan_def)
  then show ?thesis using up pos by simp
qed

lemma ex_tiny_dip_skipped:
  "project_fault tp (- 2000) {} (ex_record\<lparr>apparent_dip := 1 / 10 ^ 5\<rparr>) = None"
proof -
  have "isclose (math_tan tp (radians (1 / 10 ^ 5))) 0 (1 / 10 ^ 6)
      = (\<bar>math_tan tp (radians (1 / 10 ^ 5))\<bar> \<le> 1 / 10 ^ 6)"
    by (rule isclose_zero) simp
  with tan_small [of tp] have c: "isclose (math_tan tp (radians (1 / 10 ^ 5))) 0 (1 / 10 ^ 6)"
    by linarith
  show ?thesis
    using c by (simp add: project_fault_def Let_def ex_record_def)
qed

lemma project_fault_Uni:
  "project_fault tp d E r = Some f \<Longrightarrow> Uni f = fault_id r \<and> fault_id r \<notin> E"
  by (auto simp add: project_fault_def Let_def split: if_splits)

lemma project_fault_None_mono:
  "project_fault tp d E r = None \<Longrightarrow> E \<subseteq> E' \<Longrightarrow> project_fault tp d E' r = None"
  by (auto simp add: project_fault_def Let_def split: if_splits)

lemma project_fault_existing: "fault_id r \<in> E \<Longrightarrow> project_fault tp d E r = None"
  by (simp add: project_fault_def)

lemma add_faults_to_section_eq:
  "add_faults_to_section tp S F d
     = S @ List.map_filter (project_fault tp d (set (map Uni S))) F"
  by (simp add: add_faults_to_section_def Let_def)

lemma map_filter_Nil: "(\<And>x. x \<in> set xs \<Longrightarrow> f x = None) \<Longrightarrow> List.map_filter f xs = []"
  by (induction xs) auto

lemma Uni_map_filter:
  "project_fault tp d E r = Some f \<Longrightarrow> r \<in> set F \<Longrightarrow>
     fault_id r \<in> Uni ` set (List.map_filter (project_fault tp d E) F)"
  using project_fault_Uni [of tp d E r f]
  by (force simp add: List.map_filter_def image_iff)

lemma project_fault_general:
  assumes "fault_id r \<notin> E" and "1 / 10 ^ 6 < \<bar>math_tan tp (radians (apparent_dip r))\<bar>"
  shows "project_fault tp d E r =
       Some \<lparr>feature_geometry = LineString [(distance r, elevation r),
                (distance r + (if dip_side r = ''L'' then - 1 else 1)
                   * \<bar>d / math_tan tp (radians (apparent_dip r))\<bar>, d)],
             Uni = fault_id r\<rparr>"
proof -
  have "radians (apparent_dip r) \<noteq> 0"
  proof
    assume z: "radians (apparent_dip r) = 0"
    then have "math_tan tp (radians (apparent_dip r)) = 0" by (simp add: math_tan_def)
    with assms(2) show False by simp
  qed
  moreover have "\<not> isclose (math_tan tp (radians (apparent_dip r))) 0 (1 / 10 ^ 6)"
  proof -
    have "isclose (math_tan tp (radians (apparent_dip r))) 0 (1 / 10 ^ 6)
      = (\<bar>math_tan tp (radians (apparent_dip r))\<bar> \<le> 1 / 10 ^ 6)"
      by (rule isclose_zero) simp
    with assms(2) show ?thesis by linarith
  qed
  ultimately show ?thesis
    using assms(1) by (simp add: project_fault_def Let_def)
qed

lemma ex_project_R:
  "project_fault tp (- 2000) {} (ex_record\<lparr>distance := 500, elevation := 100\<rparr>)
       = Some \<lparr>feature_geometry = LineString [(500, 100), (2500, - 2000)], Uni = ''F2''\<rparr>"
  using project_fault_general [of "ex_record\<lparr>distance := 500, elevation := 100\<rparr>" "{}" tp "- 2000"]
  by (simp add: ex_record_def math_tan_45)

lemma ex_project_L:
  "project_fault tp (- 2000) {}
         (ex_record\<lparr>distance := 500, elevation := 100, dip_side := ''L''\<rparr>)
       = Some \<lparr>feature_geometry = LineString [(500, 100), (- 1500, - 2000)], Uni = ''F2''\<rparr>"
  using project_fault_general
    [of "ex_record\<lparr>distance := 500, elevation := 100, dip_side := ''L''\<rparr>" "{}" tp "- 2000"]
  by (simp add: ex_record_def math_tan_45)

lemma ex_project_vertical:
  "project_fault ex_tan_at_pole (- 2000) {} (ex_record\<lparr>apparent_dip := 90\<rparr>)
       = Some \<lparr>feature_geometry =
                 LineString [(1, 2251), (1 + 2000 / 16331239353195370, - 2000)],
               Uni = ''F2''\<rparr>"
  using project_fault_general [of "ex_record\<lparr>apparent_dip := 90\<rparr>" "{}" ex_tan_at_pole "- 2000"]
  by (simp add: ex_record_def math_tan_90)

subsection \<open>Auxiliary facts: angles between chords\<close>

lemma hypot_zero: "(hypot x y = 0) = (x = 0 \<and> y = 0)"
  by (simp add: hypot_def sum_power2_eq_zero_iff)

lemma chord_angle_vector:
  assumes "cs1 \<noteq> []" "hd cs1 \<noteq> last cs1" "cs2 \<noteq> []" "hd cs2 \<noteq> last cs2"
  shows "chord_angle cs1 cs2 = Inr (vector_angle (hd cs1) (last cs1) (hd cs2) (last cs2))"
proof -
  have "\<not> (fst (last cs1) - fst (hd cs1) = 0 \<and> snd (last cs1) - snd (hd cs1) = 0)"
    using assms(2) by (auto simp add: prod_eq_iff)
  moreover have "\<not> (fst (last cs2) - fst (hd cs2) = 0 \<and> snd (last cs2) - snd (hd cs2) = 0)"
    using assms(4) by (auto simp add: prod_eq_iff)
  ultimately show ?thesis
    using assms(1,3)
    by (simp add: chord_angle_def Let_def hypot_zero vector_angle_def degrees_def)
       (simp add: hypot_def)
qed

lemma ex_angle_first_part:
  "calculate_angle (LineString [(0, 0), (1, 0)])
     (MultiLineString [[(0, 1), (1, 1)], [(2, 1), (0, 2)]]) = Inr 0"
  by (simp add: calculate_angle_def chord_angle_def hypot_def degrees_def)

lemma ex_angle_overall:
  "overall_chord_angle (LineString [(0, 0), (1, 0)])
     (MultiLineString [[(0, 1), (1, 1)], [(2, 1), (0, 2)]]) = Inr 90"
  by (simp add: overall_chord_angle_def chord_angle_def hypot_def degrees_def)

lemma ex_angle_first_part_right:
  "calculate_angle (LineString [(0, 0), (1, 0)])
     (MultiLineString [[(0, 1), (0, 2)], [(0, 3), (1, 1)]]) = Inr 90"
  by (simp add: calculate_angle_def chord_angle_def hypot_def degrees_def)

lemma ex_angle_overall_flat:
  "overall_chord_angle (LineString [(0, 0), (1, 0)])
     (MultiLineString [[(0, 1), (0, 2)], [(0, 3), (1, 1)]]) = Inr 0"
  by (simp add: overall_chord_angle_def chord_angle_def hypot_def degrees_def)

lemma traverse_endpoints:
  "\<forall>cs \<in> set css. cs \<noteq> [] \<Longrightarrow>
     traverse get_endpoints (map LineString css) = Inr (map (\<lambda>cs. (hd cs, last cs)) css)"
  by (induction css) (auto simp add: get_endpoints_def split: list.splits)

lemma count_connections_apart:
  "d \<noteq> 0 \<Longrightarrow>
     count_connections [LineString [(0, 0), (0, - 1)], LineString [(d, 0), (0, 1)]]
       = Inr [(1, 1), (1, 1)]"
  by (simp add: count_connections_def get_endpoints_def)

subsection \<open>Counting endpoints (C4)\<close>

text \<open>
  Claim C4 says that endpoints closer than a tolerance are counted as one. The start
  points \<open>(0, 0)\<close> and \<open>(10\<^sup>-\<^sup>9, 0)\<close> of two faults are counted once each; and there is no
  positive tolerance under which the start points \<open>(0, 0)\<close> and \<open>(d, 0)\<close> would always be
  counted together.
\<close>

theorem count_connections_tolerance_counterexample:
  "count_connections
      [LineString [(0, 0), (0, - 1)], LineString [(1 / 10 ^ 9, 0), (0, 1)]]
     = Inr [(1, 1), (1, 1)]
   \<and> \<not> (\<exists>tol>0. \<forall>d. \<bar>d\<bar> < tol \<longrightarrow>
          count_connections [LineString [(0, 0), (0, - 1)], LineString [(d, 0), (0, 1)]]
            = Inr [(2, 1), (2, 1)])"
proof
  show "count_connections
      [LineString [(0, 0), (0, - 1)], LineString [(1 / 10 ^ 9, 0), (0, 1)]]
     = Inr [(1, 1), (1, 1)]"
    using count_connections_apart [of "1 / 10 ^ 9"] by simp
  show "\<not> (\<exists>tol>0. \<forall>d. \<bar>d\<bar> < tol \<longrightarrow>
          count_connections [LineString [(0, 0), (0, - 1)], LineString [(d, 0), (0, 1)]]
            = Inr [(2, 1), (2, 1)])"
  proof
    assume "\<exists>tol>0. \<forall>d. \<bar>d\<bar> < tol \<longrightarrow>
          count_connections [LineString [(0, 0), (0, - 1)], LineString [(d, 0), (0, 1)]]
            = Inr [(2, 1), (2, 1)]"
    then obtain tol :: real where t: "0 < tol" and
      a: "\<And>d. \<bar>d\<bar> < tol \<Longrightarrow>
            count_connections [LineString [(0, 0), (0, - 1)], LineString [(d, 0), (0, 1)]]
              = Inr [(2, 1), (2, 1)]"
      by blast
    have "\<bar>tol / 2\<bar> < tol" using t by simp
    from a [OF this] count_connections_apart [of "tol / 2"] t show False by simp
  qed
qed

text \<open>
  Claim C4, amended. In a group of non-empty line strings, the multiplicity of an
  endpoint is the number of endpoints of the group whose coordinates are equal to its
  own: two endpoints are counted as the same exactly when their coordinates are equal.
\<close>

theorem count_connections_exact_equality:
  assumes "\<forall>cs \<in> set css. cs \<noteq> []"
  shows "count_connections (map LineString css) =
    Inr (map (\<lambda>cs.
          (length (filter (\<lambda>q. q = hd cs) (concat (map (\<lambda>cs. [hd cs, last cs]) css))),
           length (filter (\<lambda>q. q = last cs) (concat (map (\<lambda>cs. [hd cs, last cs]) css)))))
        css)"
proof -
  have f: "count_list xs y = length (filter (\<lambda>q. q = y) xs)" for xs and y :: point
    by (induction xs) auto
  show ?thesis
    using traverse_endpoints [OF assms]
    by (simp add: count_connections_def Let_def f comp_def)
qed

theorem count_connections_exact_equality_witness:
  "count_connections [LineString [(0, 0), (1, 0)], LineString [(1, 0), (1, 1)]]
     = Inr [(1, 2), (2, 1)]"
  using count_connections_exact_equality [of "[[(0, 0), (1, 0)], [(1, 0), (1, 1)]]"]
  by simp

lemma project_fault_within_tolerance:
  assumes "\<bar>math_tan tp (radians (apparent_dip r))\<bar> \<le> 1 / 10 ^ 6"
  shows "project_fault tp d E r = None"
proof -
  have "isclose (math_tan tp (radians (apparent_dip r))) 0 (1 / 10 ^ 6)
      = (\<bar>math_tan tp (radians (apparent_dip r))\<bar> \<le> 1 / 10 ^ 6)"
    by (rule isclose_zero) simp
  with assms have "isclose (math_tan tp (radians (apparent_dip r))) 0 (1 / 10 ^ 6)"
    by linarith
  then show ?thesis by (simp add: project_fault_def Let_def)
qed

subsection \<open>The projected segment (C8)\<close>

text \<open>
  Claim C8 says that every intersection with a nonzero apparent dip gives a segment. The
  script also skips an apparent dip whose tangent is within its tolerance of zero: an
  apparent dip of \<open>10\<^sup>-\<^sup>5\<close> degrees is not zero, its fault is not in the section, and no
  feature is made for it.
\<close>

theorem project_fault_tolerance_counterexample:
  "apparent_dip (ex_record\<lparr>apparent_dip := 1 / 10 ^ 5\<rparr>) \<noteq> 0
   \<and> project_fault ex_tan_at_pole (- 2000) {} (ex_record\<lparr>apparent_dip := 1 / 10 ^ 5\<rparr>) = None"
  using ex_tiny_dip_skipped [of ex_tan_at_pole] by simp

text \<open>
  Claim C8, amended. For an intersection whose fault is not yet in the section and whose
  apparent dip has a tangent of absolute value above \<open>10\<^sup>-\<^sup>6\<close>, the feature is the segment
  from (distance, elevation) to (distance + sign \<sqdot> |max_depth / tan(apparent dip)|,
  max_depth), tagged with the fault identifier, where the sign is \<open>-1\<close> when the dip side
  is Left, which the data writes "L", and \<open>+1\<close> otherwise; the tangent is the real one
  wherever that has a value. A tangent within \<open>10\<^sup>-\<^sup>6\<close> of zero gives no feature. With a
  maximum depth of \<open>-2000\<close>, an apparent dip of 45 degrees and the dip side Right ("R"),
  the intersection at (500, 100) gives the segment from (500, 100) to (2500, -2000); with
  the dip side "L" it ends at (-1500, -2000). An apparent dip of 90 degrees, with the
  tangent the code computes there, gives a segment that is vertical but for
  \<open>2000 / 1.633e16\<close>.
\<close>

theorem project_fault_segment:
  "(fault_id r \<notin> E \<and> 1 / 10 ^ 6 < \<bar>math_tan tp (radians (apparent_dip r))\<bar> \<longrightarrow>
     project_fault tp d E r =
       Some \<lparr>feature_geometry = LineString [(distance r, elevation r),
                (distance r + (if dip_side r = ''L'' then - 1 else 1)
                   * \<bar>d / math_tan tp (radians (apparent_dip r))\<bar>, d)],
             Uni = fault_id r\<rparr>)
   \<and> (cos (radians (apparent_dip r)) \<noteq> 0 \<longrightarrow>
        math_tan tp (radians (apparent_dip r)) = tan (radians (apparent_dip r)))
   \<and> (\<bar>math_tan tp (radians (apparent_dip r))\<bar> \<le> 1 / 10 ^ 6 \<longrightarrow> project_fault tp d E r = None)
   \<and> project_fault tp (- 2000) {} (ex_record\<lparr>distance := 500, elevation := 100\<rparr>)
       = Some \<lparr>feature_geometry = LineString [(500, 100), (2500, - 2000)], Uni = ''F2''\<rparr>
   \<and> project_fault tp (- 2000) {}
         (ex_record\<lparr>distance := 500, elevation := 100, dip_side := ''L''\<rparr>)
       = Some \<lparr>feature_geometry = LineString [(500, 100), (- 1500, - 2000)], Uni = ''F2''\<rparr>
   \<and> project_fault ex_tan_at_pole (- 2000) {} (ex_record\<lparr>apparent_dip := 90\<rparr>)
       = Some \<lparr>feature_geometry =
                 LineString [(1, 2251), (1 + 2000 / 16331239353195370, - 2000)],
               Uni = ''F2''\<rparr>"
  using project_fault_general [of r E tp d] math_tan_regular [of "radians (apparent_dip r)" tp]
    project_fault_within_tolerance [of tp r d E]
    ex_project_R [of tp] ex_project_L [of tp] ex_project_vertical
  by blast

theorem project_fault_segment_witness:
  "project_fault ex_tan_at_pole (- 1000) {''F7''} (ex_record\<lparr>dip_side := ''L''\<rparr>)
   = Some \<lparr>feature_geometry = LineString [(1, 2251), (- 999, - 1000)], Uni = ''F2''\<rparr>"
  using project_fault_segment [of "ex_record\<lparr>dip_side := ''L''\<rparr>" "{''F7''}" ex_tan_at_pole
      "- 1000", THEN conjunct1]
  by (simp add: ex_record_def math_tan_45)

subsection \<open>Running the projector again (C9)\<close>

text \<open>
  Claim C9. A section that already holds a feature tagged with a fault identifier gets
  no new feature with that tag; and running the projector on its own output, with the
  same intersections, adds nothing.
\<close>

theorem projector_idempotent:
  "(fault_id r \<in> set (map Uni S) \<longrightarrow>
      filter (\<lambda>g. Uni g = fault_id r) (add_faults_to_section tp S F d)
        = filter (\<lambda>g. Uni g = fault_id r) S)
   \<and> add_faults_to_section tp (add_faults_to_section tp S F d) F d = add_faults_to_section tp S F d"
proof
  let ?E = "set (map Uni S)"
  let ?new = "List.map_filter (project_fault tp d ?E) F"
  show "fault_id r \<in> set (map Uni S) \<longrightarrow>
      filter (\<lambda>g. Uni g = fault_id r) (add_faults_to_section tp S F d)
        = filter (\<lambda>g. Uni g = fault_id r) S"
  proof
    assume ex: "fault_id r \<in> set (map Uni S)"
    have "\<And>g. g \<in> set ?new \<Longrightarrow> Uni g \<noteq> fault_id r"
    proof -
      fix g assume "g \<in> set ?new"
      then obtain q where "q \<in> set F" "project_fault tp d ?E q = Some g"
        by (auto simp add: List.map_filter_def)
      then have "Uni g = fault_id q" "fault_id q \<notin> ?E"
        using project_fault_Uni by blast+
      with ex show "Uni g \<noteq> fault_id r" by auto
    qed
    then have "filter (\<lambda>g. Uni g = fault_id r) ?new = []"
      by (simp add: filter_empty_conv)
    then show "filter (\<lambda>g. Uni g = fault_id r) (add_faults_to_section tp S F d)
        = filter (\<lambda>g. Uni g = fault_id r) S"
      by (simp add: add_faults_to_section_eq)
  qed
  let ?E' = "set (map Uni (S @ ?new))"
  have "List.map_filter (project_fault tp d ?E') F = []"
  proof (rule map_filter_Nil)
    fix q assume q: "q \<in> set F"
    show "project_fault tp d ?E' q = None"
    proof (cases "project_fault tp d ?E q")
      case None
      then show ?thesis by (rule project_fault_None_mono) auto
    next
      case (Some g)
      then have "fault_id q \<in> Uni ` set ?new" using q by (rule Uni_map_filter)
      then show ?thesis by (intro project_fault_existing) auto
    qed
  qed
  then show "add_faults_to_section tp (add_faults_to_section tp S F d) F d = add_faults_to_section tp S F d"
    by (simp add: add_faults_to_section_eq)
qed

theorem projector_idempotent_witness:
  "filter (\<lambda>g. Uni g = ''F2'')
     (add_faults_to_section ex_tan_at_pole [\<lparr>feature_geometry = LineString [(0, 0), (5, - 9)], Uni = ''F2''\<rparr>]
        [ex_record] (- 2000))
   = [\<lparr>feature_geometry = LineString [(0, 0), (5, - 9)], Uni = ''F2''\<rparr>]
   \<and> add_faults_to_section ex_tan_at_pole
       (add_faults_to_section ex_tan_at_pole [] [ex_record] (- 2000)) [ex_record] (- 2000)
     = add_faults_to_section ex_tan_at_pole [] [ex_record] (- 2000)"
  using projector_idempotent [of ex_record
      "[\<lparr>feature_geometry = LineString [(0, 0), (5, - 9)], Uni = ''F2''\<rparr>]" ex_tan_at_pole
      "[ex_record]" "- 2000"]
    projector_idempotent [of ex_record "[]" ex_tan_at_pole "[ex_record]" "- 2000"]
  by (simp add: ex_record_def)

subsection \<open>The angle of a multi-part line (C10)\<close>

text \<open>
  Claim C10. When one of the two lines is a \<open>MultiLineString\<close> with a first part whose
  first and last vertex differ, \<open>calculate_angle\<close> returns the angle between the other
  line's chord and the chord from the first to the last vertex of that first part; the
  other parts do not enter, and the result is the one for the first part alone. For the
  section from (0, 0) to (1, 0) and the two-part fault with parts (0, 1), (1, 1) and
  (2, 1), (0, 2), the function returns 0 degrees, while the chord from the fault's first
  vertex to its last makes 90 degrees with the section; for the parts (0, 1), (0, 2) and
  (0, 3), (1, 1) it returns 90 degrees, while the overall chord makes 0 degrees.
\<close>

theorem calculate_angle_first_part_only:
  "(cs \<noteq> [] \<and> hd cs \<noteq> last cs \<and> part \<noteq> [] \<and> hd part \<noteq> last part \<longrightarrow>
      calculate_angle (LineString cs) (MultiLineString (part # parts))
        = Inr (vector_angle (hd cs) (last cs) (hd part) (last part))
      \<and> calculate_angle (MultiLineString (part # parts)) (LineString cs)
        = Inr (vector_angle (hd part) (last part) (hd cs) (last cs)))
   \<and> calculate_angle line1 (MultiLineString (part # parts)) = calculate_angle line1 (LineString part)
   \<and> calculate_angle (MultiLineString (part # parts)) line2
       = calculate_angle (LineString part) line2
   \<and> calculate_angle (LineString [(0, 0), (1, 0)])
         (MultiLineString [[(0, 1), (1, 1)], [(2, 1), (0, 2)]]) = Inr 0
   \<and> overall_chord_angle (LineString [(0, 0), (1, 0)])
         (MultiLineString [[(0, 1), (1, 1)], [(2, 1), (0, 2)]]) = Inr 90
   \<and> calculate_angle (LineString [(0, 0), (1, 0)])
         (MultiLineString [[(0, 1), (0, 2)], [(0, 3), (1, 1)]]) = Inr 90
   \<and> overall_chord_angle (LineString [(0, 0), (1, 0)])
         (MultiLineString [[(0, 1), (0, 2)], [(0, 3), (1, 1)]]) = Inr 0"
proof (intro conjI impI)
  assume a: "cs \<noteq> [] \<and> hd cs \<noteq> last cs \<and> part \<noteq> [] \<and> hd part \<noteq> last part"
  show "calculate_angle (LineString cs) (MultiLineString (part # parts))
        = Inr (vector_angle (hd cs) (last cs) (hd part) (last part))"
    using a chord_angle_vector [of cs part] by (simp add: calculate_angle_def)
  show "calculate_angle (MultiLineString (part # parts)) (LineString cs)
        = Inr (vector_angle (hd part) (last part) (hd cs) (last cs))"
    using a chord_angle_vector [of part cs] by (simp add: calculate_angle_def)
next
  show "calculate_angle line1 (MultiLineString (part # parts))
      = calculate_angle line1 (LineString part)"
    by (simp add: calculate_angle_def split: sum.splits)
  show "calculate_angle (MultiLineString (part # parts)) line2
      = calculate_angle (LineString part) line2"
    by (simp add: calculate_angle_def)
qed (rule ex_angle_first_part, rule ex_angle_overall, rule ex_angle_first_part_right,
     rule ex_angle_overall_flat)

theorem calculate_angle_first_part_only_witness:
  "calculate_angle (LineString [(0, 0), (1, 0)])
     (MultiLineString [[(1, 1), (0, 1)], [(0, 3), (5, 5)]])
   = Inr (vector_angle (0, 0) (1, 0) (1, 1) (0, 1))
   \<and> vector_angle (0, 0) (1, 0) (1, 1) (0, 1) = 180"
proof -
  have "vector_angle (0, 0) (1, 0) (1, 1) (0, 1) = 180"
    by (simp add: vector_angle_def)
  then show ?thesis
    using calculate_angle_first_part_only [of "[(0, 0), (1, 0)]" "[(1, 1), (0, 1)]"
      "[[(0, 3), (5, 5)]]", THEN conjunct1]
    by simp
qed

subsection \<open>Auxiliary facts: segments and the extended line\<close>

lemma segment_left: "a \<in> segment a b"
  by (auto simp add: segment_def intro!: exI [of _ 0])

lemma segment_right: "b \<in> segment a b"
  by (auto simp add: segment_def intro!: exI [of _ 1])





lemma extend_fault_start_only:
  assumes "cs \<noteq> []" "fst conn = 1" "snd conn \<noteq> 1"
  shows "extend_fault (LineString cs) conn area factor =
    Inr (Intersection [hd cs, far_start cs factor, hd cs, last cs] area)"
  using assms by (simp add: extend_fault_def far_start_def Let_def split: list.splits)

lemma extend_fault_end_only:
  assumes "cs \<noteq> []" "fst conn \<noteq> 1" "snd conn = 1"
  shows "extend_fault (LineString cs) conn area factor =
    Inr (Intersection [hd cs, last cs, far_end cs factor, last cs] area)"
  using assms by (simp add: extend_fault_def far_end_def Let_def split: list.splits)

lemma extend_fault_both:
  assumes "cs \<noteq> []" "fst conn = 1" "snd conn = 1"
  shows "extend_fault (LineString cs) conn area factor =
    Inr (Intersection
          [hd cs, far_start cs factor, hd cs, last cs, far_end cs factor, last cs] area)"
  using assms
  by (simp add: extend_fault_def far_start_def far_end_def Let_def split: list.splits)

lemma extend_fault_neither:
  assumes "cs \<noteq> []" "fst conn \<noteq> 1" "snd conn \<noteq> 1"
  shows "extend_fault (LineString cs) conn area factor = Inr Unmodified"
  using assms by (simp add: extend_fault_def Let_def split: list.splits)















subsection \<open>Extending a fault with one dangling endpoint (C3)\<close>


text \<open>
  The extended line is built from the first and the last vertex only (line 71). A fault
  with a vertex off its chord loses it: the middle vertex of this fault lies in the area
  and is not in the output.
\<close>

lemma extend_fault_drops_inner_vertex:
  "extend_fault (LineString [(0, 0), (1 / 2, 1 / 2), (1, 0)]) (2, 1) ex_area default_factor
    = Inr (Intersection [(0, 0), (1, 0), (1001, 0), (1, 0)] ex_area)
  \<and> (1 / 2, 1 / 2) \<in> path_points [(0, 0), (1 / 2, 1 / 2), (1, 0)]
  \<and> (1 / 2, 1 / 2) \<in> ex_area
  \<and> (1 / 2, 1 / 2) \<notin> result_points [(0, 0), (1 / 2, 1 / 2), (1, 0)]
        (Intersection [(0, 0), (1, 0), (1001, 0), (1, 0)] ex_area)"
proof -
  have "(1 / 2, 1 / 2) \<in> segment (0, 0) (1 / 2, 1 / 2)"
    by (rule segment_right)
  then show ?thesis
    by (auto simp add: extend_fault_def default_factor_def Let_def segment_def ex_area_def)
qed



subsection \<open>The intersection is returned as it is\<close>

text \<open>
  \<open>extend_fault\<close> makes no test of the intersection it returns. When both endpoints of
  a fault differ and lie in the model area, as they do after the clip of line 95, the
  intersection contains them both, so that it is neither empty nor a single point. A
  fault line outside the area, which the script does not pass, gets the empty
  intersection and not the fault; so does a line whose first and last vertex coincide,
  were one of them counted as dangling.
\<close>

lemma extend_fault_clip_keeps_endpoints:
  assumes "cs \<noteq> []" and "hd cs \<noteq> last cs" and "fst conn = 1 \<or> snd conn = 1"
    and "hd cs \<in> area" and "last cs \<in> area"
  shows "\<exists>ext. extend_fault (LineString cs) conn area factor = Inr (Intersection ext area)
    \<and> hd cs \<in> result_points cs (Intersection ext area)
    \<and> last cs \<in> result_points cs (Intersection ext area)"
proof -
  consider "fst conn = 1" "snd conn \<noteq> 1" | "fst conn \<noteq> 1" "snd conn = 1"
    | "fst conn = 1" "snd conn = 1"
    using assms(3) by blast
  then show ?thesis
  proof cases
    case 1
    show ?thesis
      using extend_fault_start_only [OF assms(1) 1, of area factor] assms(2,4,5)
        segment_left [of "hd cs"] segment_right [of "last cs"]
      by auto
  next
    case 2
    show ?thesis
      using extend_fault_end_only [OF assms(1) 2, of area factor] assms(2,4,5)
        segment_left [of "hd cs"] segment_right [of "last cs"]
      by auto
  next
    case 3
    show ?thesis
      using extend_fault_both [OF assms(1) 3, of area factor] assms(2,4,5)
        segment_left [of "hd cs"] segment_right [of "last cs"]
      by auto
  qed
qed

lemma extend_fault_outside_area:
  "extend_fault (LineString [(0, 2), (1, 2)]) (1, 2) ex_area default_factor
     = Inr (Intersection [(0, 2), (- 1000, 2), (0, 2), (1, 2)] ex_area)
   \<and> result_points [(0, 2), (1, 2)]
       (Intersection [(0, 2), (- 1000, 2), (0, 2), (1, 2)] ex_area) = {}
   \<and> (0, 2) \<in> path_points [(0, 2), (1, 2)]"
  by (auto simp add: extend_fault_def default_factor_def Let_def segment_def ex_area_def)

lemma extend_fault_zero_length:
  assumes "cs \<noteq> []" and "hd cs = last cs" and "fst conn = 1" and "snd conn \<noteq> 1"
  shows "extend_fault (LineString cs) conn area factor
      = Inr (Intersection [hd cs, hd cs, hd cs, hd cs] area)
    \<and> result_points cs (Intersection [hd cs, hd cs, hd cs, hd cs] area) = {}"
  using extend_fault_start_only [OF assms(1,3,4), of area factor] assms(2)
  by (simp add: far_start_def)

end
